theory Spec2Isabelle
  imports Main
begin

section \<open>Python strings and paths\<close>

text \<open>
  The handlers derive a file's format from its name with
  \<^verbatim>\<open>os.path.splitext(name)[1].lower().strip('.')\<close>. The three library functions are
  modelled on \<open>string\<close>. \<open>rfind\<close> is \<^verbatim>\<open>str.rfind\<close>: the highest index of a character,
  or \<open>-1\<close>.
\<close>

fun rfind :: "char \<Rightarrow> string \<Rightarrow> int" where
  "rfind c [] = - 1"
| "rfind c (x # xs) =
     (let r = rfind c xs in if 0 \<le> r then r + 1 else if x = c then 0 else - 1)"

text \<open>
  \<^verbatim>\<open>posixpath.splitext\<close>: the extension starts at the last dot, when that dot comes after
  the last slash and some character between the slash and the dot is not a dot (the
  library's loop that skips leading dots); otherwise the extension is empty.
\<close>

definition splitext :: "string \<Rightarrow> string \<times> string" where
  "splitext p =
     (let sepIndex = rfind (CHR ''/'') p;
          dotIndex = rfind (CHR ''.'') p
      in if dotIndex > sepIndex \<and>
            list_ex (\<lambda>c. c \<noteq> CHR ''.'')
              (take (nat dotIndex - nat (sepIndex + 1)) (drop (nat (sepIndex + 1)) p))
         then (take (nat dotIndex) p, drop (nat dotIndex) p)
         else (p, []))"

definition ascii_uppercase :: string where
  "ascii_uppercase = ''ABCDEFGHIJKLMNOPQRSTUVWXYZ''"

definition ascii_lowercase :: string where
  "ascii_lowercase = ''abcdefghijklmnopqrstuvwxyz''"

text \<open>
  \<^verbatim>\<open>str.lower\<close> on the ASCII letters. Other characters are left as they are; no character
  outside ASCII lowercases to a letter of \<open>csv\<close>, \<open>xlsx\<close> or \<open>xls\<close>, so the format
  checks below do not depend on them.
\<close>

definition lower_char :: "char \<Rightarrow> char" where
  "lower_char c =
     (case map_of (zip ascii_uppercase ascii_lowercase) c of Some l \<Rightarrow> l | None \<Rightarrow> c)"

definition lower :: "string \<Rightarrow> string" where
  "lower s = map lower_char s"

text \<open>\<^verbatim>\<open>s.strip(c)\<close> for a single character: drops it from both ends.\<close>

definition strip :: "char \<Rightarrow> string \<Rightarrow> string" where
  "strip c s = rev (dropWhile (\<lambda>x. x = c) (rev (dropWhile (\<lambda>x. x = c) s)))"

definition quoted :: "string \<Rightarrow> string" where
  "quoted s = CHR 0x27 # s @ [CHR 0x27]"

fun str_nat :: "nat \<Rightarrow> string" where
  "str_nat n =
     (if n < 10 then [''0123456789'' ! n]
      else str_nat (n div 10) @ [''0123456789'' ! (n mod 10)])"

section \<open>Exceptions\<close>

text \<open>
  Every exception that the code raises or lets through is a value. \<open>TransportError\<close>
  stands for the HTTP client's errors when the object store cannot be reached, and
  \<open>CodecError\<close> for a parser error of the table library; \<open>HTTPException\<close> carries the
  status code and the detail. An exception other than \<open>HTTPException\<close> that leaves a
  handler is answered by the framework with status 500.
\<close>

datatype exn =
    ConnectionError string
  | AttributeError string
  | S3Error string
  | TransportError string
  | IntegrityError string
  | ValueError string
  | CodecError string
  | HTTPException nat string

fun str_exn :: "exn \<Rightarrow> string" where
  "str_exn (ConnectionError m) = m"
| "str_exn (AttributeError m) = m"
| "str_exn (S3Error m) = m"
| "str_exn (TransportError m) = m"
| "str_exn (IntegrityError m) = m"
| "str_exn (ValueError m) = m"
| "str_exn (CodecError m) = m"
| "str_exn (HTTPException status detail) = str_nat status @ '': '' @ detail"

section \<open>Tables\<close>

text \<open>
  A decoded table (a pandas DataFrame) is its column names and its rows; a cell is
  \<open>None\<close> when the value is missing. A DataFrame is rectangular: \<open>wf_df\<close>. The cell
  values themselves are a type parameter, so value conversions of the codecs (number
  and date inference, floating point) are outside the model.
\<close>

record 'v DataFrame =
  columns :: "string list"
  rows :: "'v option list list"


type_synonym 'v records = "(string \<times> 'v option) list list"

fun get_loc :: "string \<Rightarrow> string list \<Rightarrow> nat" where
  "get_loc c [] = 0"
| "get_loc c (x # xs) = (if x = c then 0 else Suc (get_loc c xs))"

definition remove_nth :: "nat \<Rightarrow> 'a list \<Rightarrow> 'a list" where
  "remove_nth j xs = take j xs @ drop (Suc j) xs"

text \<open>
  \<^verbatim>\<open>pd.merge(left, right, on=col, how='inner')\<close>, for \<open>col\<close> a column of both tables.
  Rows: every left row, in order, is paired with every right row of equal key, in order;
  a missing key equals a missing key, as in the library. A joined row is the left row
  followed by the right row without its key cell. Columns: the left columns, then the
  right columns without the key; a name that both sides have outside the key gets the
  suffix \<open>_x\<close> on the left and \<open>_y\<close> on the right.
\<close>

fun match_right :: "nat \<Rightarrow> nat \<Rightarrow> 'a list \<Rightarrow> 'a list list \<Rightarrow> 'a list list" where
  "match_right i j l [] = []"
| "match_right i j l (r # rs) =
     (if l ! i = r ! j then (l @ remove_nth j r) # match_right i j l rs
      else match_right i j l rs)"

fun join_rows :: "nat \<Rightarrow> nat \<Rightarrow> 'a list list \<Rightarrow> 'a list list \<Rightarrow> 'a list list" where
  "join_rows i j [] rs = []"
| "join_rows i j (l # ls) rs = match_right i j l rs @ join_rows i j ls rs"

definition pd_merge :: "'v DataFrame \<Rightarrow> 'v DataFrame \<Rightarrow> string \<Rightarrow> 'v DataFrame" where
  "pd_merge left right on =
     (let i = get_loc on (columns left);
          j = get_loc on (columns right);
          lother = remove_nth i (columns left);
          rother = remove_nth j (columns right)
      in \<lparr>columns =
            map (\<lambda>c. if c \<noteq> on \<and> c \<in> set rother then c @ ''_x'' else c) (columns left) @
            map (\<lambda>c. if c \<in> set lother then c @ ''_y'' else c) rother,
          rows = join_rows i j (rows left) (rows right)\<rparr>)"

text \<open>
  \<^verbatim>\<open>df.to_dict(orient="records")\<close>: one dictionary per row, from column name to cell.
\<close>

definition to_dict :: "'v DataFrame \<Rightarrow> 'v records" where
  "to_dict df = map (\<lambda>r. zip (columns df) r) (rows df)"

text \<open>
  \<^verbatim>\<open>df.to_json(orient="records")\<close>: the same row objects as a JSON array; the library
  raises \<open>ValueError\<close> when the column names are not unique. The JSON text is modelled
  by its structure, the list of row objects. A table without rows serialises to the
  text \<open>[]\<close>, which is a non-empty (truthy) string.
\<close>

definition to_json :: "'v DataFrame \<Rightarrow> exn + 'v records" where
  "to_json df =
     (if distinct (columns df) then Inr (to_dict df)
      else Inl (ValueError ''DataFrame columns must be unique for orient=records.''))"

text \<open>
  \<^verbatim>\<open>pd.read_json(text, orient="records")\<close>: the columns are the keys of the row objects
  in order of first appearance; a row takes the value of each column from its object
  (the last binding of a repeated key), a missing value where the object has none.
\<close>

definition add_key :: "string list \<Rightarrow> string \<Rightarrow> string list" where
  "add_key acc k = (if k \<in> set acc then acc else acc @ [k])"

definition fast_unique :: "string list list \<Rightarrow> string list" where
  "fast_unique kss = foldl (foldl add_key) [] kss"

definition read_json :: "'v records \<Rightarrow> 'v DataFrame" where
  "read_json recs =
     (let cols = fast_unique (map (map fst) recs)
      in \<lparr>columns = cols,
          rows = map (\<lambda>r. map (\<lambda>c. case map_of (rev r) c of None \<Rightarrow> None | Some v \<Rightarrow> v) cols)
                   recs\<rparr>)"

text \<open>\<^verbatim>\<open>df.head()\<close>: the first five rows.\<close>

definition head :: "'v DataFrame \<Rightarrow> 'v DataFrame" where
  "head df = df\<lparr>rows := take 5 (rows df)\<rparr>"

text \<open>
  The byte codecs of the table library are parameters of the handlers: decoding can
  fail, encoding returns the bytes. \<open>'b\<close> is the type of a blob.
\<close>

record ('v, 'b) pandas =
  read_csv :: "'b \<Rightarrow> exn + 'v DataFrame"
  read_excel :: "'b \<Rightarrow> exn + 'v DataFrame"
  to_csv :: "'v DataFrame \<Rightarrow> 'b"
  to_excel :: "'v DataFrame \<Rightarrow> 'b"

definition get_file_dataframe ::
  "('v, 'b) pandas \<Rightarrow> 'b \<Rightarrow> string \<Rightarrow> exn + 'v DataFrame" where
  "get_file_dataframe pd minio_data file_format =
     (case (if lower file_format = ''csv'' then read_csv pd minio_data
            else if lower file_format \<in> {''xlsx'', ''xls''} then read_excel pd minio_data
            else Inl (ValueError ''Unsupported file format.''))
      of Inl e \<Rightarrow> Inl (HTTPException 400 (''Error reading file into DataFrame: '' @ str_exn e))
       | Inr df \<Rightarrow> Inr df)"

section \<open>Object store\<close>

text \<open>
  The MinIO server: whether it can be reached, and its buckets, each a map from object
  name to the bytes and the content type. A call to an unreachable server raises a
  transport error; a missing bucket or object raises \<open>S3Error\<close>.
\<close>

record 'b minio_server =
  reachable :: bool
  buckets :: "string \<rightharpoonup> (string \<rightharpoonup> 'b \<times> string)"

definition MINIO_BUCKET_NAME :: string where
  "MINIO_BUCKET_NAME = ''data-files''"

definition bucket_exists :: "'b minio_server \<Rightarrow> string \<Rightarrow> exn + bool" where
  "bucket_exists srv b =
     (if reachable srv then Inr (b \<in> dom (buckets srv))
      else Inl (TransportError ''Max retries exceeded''))"

definition make_bucket :: "'b minio_server \<Rightarrow> string \<Rightarrow> exn + 'b minio_server" where
  "make_bucket srv b =
     (if \<not> reachable srv then Inl (TransportError ''Max retries exceeded'')
      else if b \<in> dom (buckets srv) then Inl (S3Error ''BucketAlreadyOwnedByYou'')
      else Inr (srv\<lparr>buckets := (buckets srv)(b \<mapsto> Map.empty)\<rparr>))"

definition put_object ::
  "'b minio_server \<Rightarrow> string \<Rightarrow> string \<Rightarrow> 'b \<Rightarrow> string \<Rightarrow> exn + 'b minio_server" where
  "put_object srv b name data content_type =
     (if \<not> reachable srv then Inl (TransportError ''Max retries exceeded'')
      else case buckets srv b of
             None \<Rightarrow> Inl (S3Error ''NoSuchBucket'')
           | Some objs \<Rightarrow>
               Inr (srv\<lparr>buckets := (buckets srv)(b \<mapsto> objs(name \<mapsto> (data, content_type)))\<rparr>))"

definition get_object :: "'b minio_server \<Rightarrow> string \<Rightarrow> string \<Rightarrow> exn + 'b" where
  "get_object srv b name =
     (if \<not> reachable srv then Inl (TransportError ''Max retries exceeded'')
      else case buckets srv b of
             None \<Rightarrow> Inl (S3Error ''NoSuchBucket'')
           | Some objs \<Rightarrow>
               (case objs name of
                  None \<Rightarrow> Inl (S3Error ''NoSuchKey'')
                | Some (data, content_type) \<Rightarrow> Inr data))"

record MinioService =
  bucket_name :: string

text \<open>
  \<^verbatim>\<open>MinioService._ensure_bucket_exists\<close>: an \<open>S3Error\<close> becomes a \<open>ConnectionError\<close>, any
  other exception passes through to the constructor.
\<close>

definition MinioService_ensure_bucket_exists ::
  "MinioService \<Rightarrow> 'b minio_server \<Rightarrow> exn + 'b minio_server" where
  "MinioService_ensure_bucket_exists self srv =
     (case (case bucket_exists srv (bucket_name self) of
              Inl e \<Rightarrow> Inl e
            | Inr True \<Rightarrow> Inr srv
            | Inr False \<Rightarrow> make_bucket srv (bucket_name self))
      of Inl (S3Error m) \<Rightarrow> Inl (ConnectionError ''Could not connect to MinIO. Is it running?'')
       | Inl e \<Rightarrow> Inl e
       | Inr srv' \<Rightarrow> Inr srv')"

text \<open>\<^verbatim>\<open>MinioService.__init__\<close>: every failure is raised as a \<open>ConnectionError\<close>.\<close>

definition MinioService_init ::
  "'b minio_server \<Rightarrow> (exn + MinioService) \<times> 'b minio_server" where
  "MinioService_init srv =
     (let self = \<lparr>bucket_name = MINIO_BUCKET_NAME\<rparr>
      in case MinioService_ensure_bucket_exists self srv of
           Inl err \<Rightarrow>
             (Inl (ConnectionError (''Could not initialize MinIO client: '' @ str_exn err @
                                     ''. Is MinIO running?'')), srv)
         | Inr srv' \<Rightarrow> (Inr self, srv'))"

definition MinioService_upload_file ::
  "MinioService \<Rightarrow> string \<Rightarrow> 'b \<Rightarrow> string \<Rightarrow> 'b minio_server \<Rightarrow> exn + 'b minio_server" where
  "MinioService_upload_file self filename data content_type srv =
     put_object srv (bucket_name self) filename data content_type"

definition MinioService_fetch_file ::
  "MinioService \<Rightarrow> string \<Rightarrow> 'b minio_server \<Rightarrow> exn + 'b" where
  "MinioService_fetch_file self filename srv = get_object srv (bucket_name self) filename"

text \<open>
  The module global \<^verbatim>\<open>minio_service\<close> is the service, or \<open>None\<close> when its construction
  raised \<open>ConnectionError\<close>. A method call on \<open>None\<close> raises \<open>AttributeError\<close>.
\<close>

definition module_minio_service ::
  "'b minio_server \<Rightarrow> MinioService option \<times> 'b minio_server" where
  "module_minio_service srv =
     (case MinioService_init srv of
        (Inl e, srv') \<Rightarrow> (None, srv')
      | (Inr self, srv') \<Rightarrow> (Some self, srv'))"

definition method_of :: "MinioService option \<Rightarrow> string \<Rightarrow> exn + MinioService" where
  "method_of obj attr =
     (case obj of
        None \<Rightarrow> Inl (AttributeError (quoted ''NoneType'' @ '' object has no attribute '' @
                                      quoted attr))
      | Some self \<Rightarrow> Inr self)"

section \<open>Metadata catalog\<close>

text \<open>
  The table \<open>files(id PRIMARY KEY, filename UNIQUE, format)\<close> with the sequence that
  assigns the ids. Adding and committing a row whose filename is already in the table
  raises \<open>IntegrityError\<close> and leaves the rows as they were; the sequence value is used
  up either way.
\<close>

record FileMetadata =
  id_col :: nat
  filename :: string
  format :: string

record database =
  files :: "FileMetadata list"
  files_id_seq :: nat

definition db_get :: "nat \<Rightarrow> database \<Rightarrow> FileMetadata option" where
  "db_get file_id d = find (\<lambda>r. id_col r = file_id) (files d)"

definition db_add_commit :: "string \<Rightarrow> string \<Rightarrow> database \<Rightarrow> (exn + FileMetadata) \<times> database" where
  "db_add_commit name fmt d =
     (let db_file = \<lparr>id_col = files_id_seq d, filename = name, format = fmt\<rparr>;
          d' = d\<lparr>files_id_seq := Suc (files_id_seq d)\<rparr>
      in if name \<in> set (map filename (files d))
         then (Inl (IntegrityError ''duplicate key value violates unique constraint''), d')
         else (Inr db_file, d'\<lparr>files := files d @ [db_file]\<rparr>))"

section \<open>Result cache\<close>

text \<open>
  The in-memory cache backend: a dictionary from key to the value and the time at which
  it expires. Reading an expired entry removes it and returns nothing, exactly as a key
  that was never set; deleting an absent key is not an error.
\<close>

type_synonym 'v cache_store = "string \<rightharpoonup> 'v records \<times> nat"

definition cache_get :: "string \<Rightarrow> nat \<Rightarrow> 'v cache_store \<Rightarrow> 'v records option \<times> 'v cache_store" where
  "cache_get k t store =
     (case store k of
        None \<Rightarrow> (None, store)
      | Some (data, ttl_ts) \<Rightarrow>
          if ttl_ts < t then (None, store(k := None)) else (Some data, store))"

definition cache_set :: "string \<Rightarrow> 'v records \<Rightarrow> nat \<Rightarrow> nat \<Rightarrow> 'v cache_store \<Rightarrow> 'v cache_store" where
  "cache_set k v expire t store = store(k \<mapsto> (v, t + expire))"

definition cache_delete :: "string \<Rightarrow> 'v cache_store \<Rightarrow> 'v cache_store" where
  "cache_delete k store = store(k := None)"

section \<open>The service\<close>

text \<open>
  The state that the handlers share: the object store and the module global that holds
  its client, the catalog, the cache and the clock (in seconds).
\<close>

record ('v, 'b) world =
  minio :: "'b minio_server"
  minio_service :: "MinioService option"
  db :: database
  cache :: "'v cache_store"
  now :: nat

text \<open>Importing the module \<^verbatim>\<open>minio_service\<close> sets the global.\<close>

definition import_minio_service :: "('v, 'b) world \<Rightarrow> ('v, 'b) world" where
  "import_minio_service w =
     (case module_minio_service (minio w) of
        (g, srv') \<Rightarrow> w\<lparr>minio := srv', minio_service := g\<rparr>)"

definition file_format_of :: "string \<Rightarrow> string" where
  "file_format_of name = strip (CHR ''.'') (lower (snd (splitext name)))"

text \<open>\<^verbatim>\<open>POST /files/upload\<close>.\<close>

definition upload_file ::
  "string \<Rightarrow> 'b \<Rightarrow> string \<Rightarrow> ('v, 'b) world \<Rightarrow> (exn + FileMetadata) \<times> ('v, 'b) world" where
  "upload_file file_filename file_content file_content_type w =
     (let file_format = file_format_of file_filename
      in if file_format \<notin> set [''csv'', ''xlsx'']
         then (Inl (HTTPException 400 ''Invalid file format.''), w)
         else
           case (case method_of (minio_service w) ''upload_file'' of
                   Inl e \<Rightarrow> Inl e
                 | Inr self \<Rightarrow>
                     MinioService_upload_file self file_filename file_content
                       file_content_type (minio w))
           of Inl (ConnectionError m) \<Rightarrow>
                (Inl (HTTPException 503 (''MinIO Service Unavailable: '' @ m)), w)
            | Inl e \<Rightarrow>
                (Inl (HTTPException 500 (''Failed to upload file to MinIO: '' @ str_exn e)), w)
            | Inr srv' \<Rightarrow>
                (case db_add_commit file_filename file_format (db w) of
                   (Inl e, d') \<Rightarrow>
                     (Inl (HTTPException 500 ''Database error: Failed to store file metadata.''),
                      w\<lparr>minio := srv', db := d'\<rparr>)
                 | (Inr db_file, d') \<Rightarrow> (Inr db_file, w\<lparr>minio := srv', db := d'\<rparr>)))"

text \<open>\<^verbatim>\<open>GET /files\<close>.\<close>

definition view_stored_files :: "('v, 'b) world \<Rightarrow> FileMetadata list" where
  "view_stored_files w = files (db w)"

record 'v MergedPreviewResponse =
  cache_key :: string
  preview :: "'v records"
  message :: string

text \<open>
  The \<^verbatim>\<open>try\<close> block of the merge handler: both fetches, then both decodes; the first
  exception ends it.
\<close>

definition fetch_and_read ::
  "('v, 'b) pandas \<Rightarrow> FileMetadata \<Rightarrow> FileMetadata \<Rightarrow> ('v, 'b) world \<Rightarrow>
   exn + 'v DataFrame \<times> 'v DataFrame" where
  "fetch_and_read pd meta1 meta2 w =
     (case method_of (minio_service w) ''fetch_file'' of
        Inl e \<Rightarrow> Inl e
      | Inr self \<Rightarrow>
          (case MinioService_fetch_file self (filename meta1) (minio w) of
             Inl e \<Rightarrow> Inl e
           | Inr data1 \<Rightarrow>
               (case MinioService_fetch_file self (filename meta2) (minio w) of
                  Inl e \<Rightarrow> Inl e
                | Inr data2 \<Rightarrow>
                    (case get_file_dataframe pd data1 (format meta1) of
                       Inl e \<Rightarrow> Inl e
                     | Inr df1 \<Rightarrow>
                         (case get_file_dataframe pd data2 (format meta2) of
                            Inl e \<Rightarrow> Inl e
                          | Inr df2 \<Rightarrow> Inr (df1, df2))))))"


text \<open>
  \<^verbatim>\<open>GET /files/merge\<close>. \<open>uuid4\<close> is the string that \<^verbatim>\<open>str(uuid.uuid4())\<close> returns in
  this request: the random source is an input of the model.
\<close>

definition merge_files_temporarily ::
  "('v, 'b) pandas \<Rightarrow> string \<Rightarrow> nat \<Rightarrow> nat \<Rightarrow> string \<Rightarrow> ('v, 'b) world \<Rightarrow>
   (exn + 'v MergedPreviewResponse) \<times> ('v, 'b) world" where
  "merge_files_temporarily pd uuid4 file_id_1 file_id_2 common_column w =
     (case (db_get file_id_1 (db w), db_get file_id_2 (db w)) of
        (Some meta1, Some meta2) \<Rightarrow>
          (case fetch_and_read pd meta1 meta2 w of
             Inl e \<Rightarrow>
               (Inl (HTTPException 500 (''Error fetching/reading files: '' @ str_exn e)), w)
           | Inr (df1, df2) \<Rightarrow>
               if common_column \<notin> set (columns df1) \<or> common_column \<notin> set (columns df2)
               then (Inl (HTTPException 400
                            (''Common column '' @ quoted common_column @ '' not found.'')), w)
               else
                 let merged_df = pd_merge df1 df2 common_column
                 in case to_json merged_df of
                      Inl e \<Rightarrow> (Inl e, w)
                    | Inr merged_json \<Rightarrow>
                        (Inr \<lparr>cache_key = uuid4,
                              preview = to_dict (head merged_df),
                              message = ''Merged dataset cached in memory with key: '' @ uuid4\<rparr>,
                         w\<lparr>cache := cache_set uuid4 merged_json 3600 (now w) (cache w)\<rparr>))
      | _ \<Rightarrow> (Inl (HTTPException 404 ''One or both file IDs not found.''), w))"

text \<open>
  \<^verbatim>\<open>POST /files/save_merged\<close>. The catalog insert is outside any \<^verbatim>\<open>try\<close>: its exception
  leaves the handler as it is, and the statements after it do not run.
\<close>

definition save_merged_dataset ::
  "('v, 'b) pandas \<Rightarrow> string \<Rightarrow> string \<Rightarrow> ('v, 'b) world \<Rightarrow>
   (exn + FileMetadata) \<times> ('v, 'b) world" where
  "save_merged_dataset pd key new_filename w =
     (case cache_get key (now w) (cache w) of
        (None, store') \<Rightarrow>
          (Inl (HTTPException 404 ''Merged dataset not found or has expired in cache.''),
           w\<lparr>cache := store'\<rparr>)
      | (Some merged_json, store') \<Rightarrow>
          let w1 = w\<lparr>cache := store'\<rparr>;
              merged_df = read_json merged_json;
              file_format = file_format_of new_filename
          in case (if file_format = ''csv''
                   then Inr (to_csv pd merged_df, ''text/csv'')
                   else if file_format \<in> {''xlsx'', ''xls''}
                   then Inr (to_excel pd merged_df,
                     ''application/vnd.openxmlformats-officedocument.spreadsheetml.sheet'')
                   else Inl (HTTPException 400 ''New file format must be CSV or XLSX.''))
             of Inl e \<Rightarrow> (Inl e, w1)
              | Inr (output, content_type) \<Rightarrow>
                  (case (case method_of (minio_service w1) ''upload_file'' of
                           Inl e \<Rightarrow> Inl e
                         | Inr self \<Rightarrow>
                             MinioService_upload_file self new_filename output content_type
                               (minio w1))
                   of Inl e \<Rightarrow>
                        (Inl (HTTPException 500
                                (''Failed to upload merged file to MinIO: '' @ str_exn e)), w1)
                    | Inr srv' \<Rightarrow>
                        (case db_add_commit new_filename file_format (db w1) of
                           (Inl e, d') \<Rightarrow> (Inl e, w1\<lparr>minio := srv', db := d'\<rparr>)
                         | (Inr db_file, d') \<Rightarrow>
                             (Inr db_file,
                              w1\<lparr>minio := srv', db := d',
                                 cache := cache_delete key (cache w1)\<rparr>))))"

section \<open>Example data\<close>

text \<open>
  A codec that loses nothing (a blob is the table itself), three small tables, a world in
  which they are registered as files 1, 2 and 3, and the world after merging files 1
  and 2 on \<open>id\<close> under the key \<open>k1\<close>.
\<close>

definition lossless_pandas :: "('v, 'v DataFrame) pandas" where
  "lossless_pandas =
     \<lparr>read_csv = Inr, read_excel = Inr, to_csv = (\<lambda>df. df), to_excel = (\<lambda>df. df)\<rparr>"

definition table_A :: "string DataFrame" where
  "table_A = \<lparr>columns = [''id'', ''x''],
              rows = [[Some ''1'', Some ''a''], [Some ''2'', Some ''b'']]\<rparr>"

definition table_B :: "string DataFrame" where
  "table_B = \<lparr>columns = [''id'', ''y''],
              rows = [[Some ''1'', Some ''p''], [Some ''3'', Some ''q'']]\<rparr>"

definition table_C :: "string DataFrame" where
  "table_C = \<lparr>columns = [''id'', ''z''], rows = [[Some ''7'', Some ''r'']]\<rparr>"


definition example_world :: "(string, string DataFrame) world" where
  "example_world =
     \<lparr>minio = \<lparr>reachable = True,
               buckets = [''data-files'' \<mapsto>
                 [''A.csv'' \<mapsto> (table_A, ''text/csv''),
                  ''B.csv'' \<mapsto> (table_B, ''text/csv''),
                  ''C.csv'' \<mapsto> (table_C, ''text/csv'')]]\<rparr>,
      minio_service = Some \<lparr>bucket_name = ''data-files''\<rparr>,
      db = \<lparr>files = [\<lparr>id_col = 1, filename = ''A.csv'', format = ''csv''\<rparr>,
                      \<lparr>id_col = 2, filename = ''B.csv'', format = ''csv''\<rparr>,
                      \<lparr>id_col = 3, filename = ''C.csv'', format = ''csv''\<rparr>],
            files_id_seq = 4\<rparr>,
      cache = Map.empty,
      now = 1000\<rparr>"

definition staged_world :: "(string, string DataFrame) world" where
  "staged_world = snd (merge_files_temporarily lossless_pandas ''k1'' 1 2 ''id'' example_world)"

text \<open>A world whose object store cannot be reached, before the service module is imported.\<close>

definition offline_world :: "(string, string DataFrame) world" where
  "offline_world =
     \<lparr>minio = \<lparr>reachable = False, buckets = Map.empty\<rparr>,
      minio_service = None,
      db = \<lparr>files = [], files_id_seq = 1\<rparr>,
      cache = Map.empty,
      now = 1000\<rparr>"


section \<open>Format of a file name\<close>














section \<open>Commit of an absent or expired key\<close>

lemma staged_world_eq:
  "staged_world = example_world\<lparr>cache := [''k1'' \<mapsto> ([[(''id'', Some ''1''), (''x'', Some ''a''), (''y'', Some ''p'')]], 4600)]\<rparr>"
  by (simp add: staged_world_def example_world_def merge_files_temporarily_def db_get_def
      fetch_and_read_def method_of_def MinioService_fetch_file_def get_object_def
      get_file_dataframe_def lower_def lower_char_def ascii_uppercase_def ascii_lowercase_def
      lossless_pandas_def table_A_def table_B_def pd_merge_def remove_nth_def to_json_def to_dict_def
      cache_set_def Let_def)

lemma cache_get_None_iff:
  "fst (cache_get k t store) = None \<longleftrightarrow>
   store k = None \<or> (\<exists>data ttl_ts. store k = Some (data, ttl_ts) \<and> ttl_ts < t)"
  by (auto simp: cache_get_def split: option.splits)

lemma cache_get_None_store:
  "fst (cache_get k t store) = None \<Longrightarrow> snd (cache_get k t store) = store(k := None)"
  by (auto simp: cache_get_def split: option.splits if_splits)


lemma save_not_found:
  assumes "fst (cache_get key (now w) (cache w)) = None"
  shows "save_merged_dataset pd key new_filename w =
     (Inl (HTTPException 404 ''Merged dataset not found or has expired in cache.''),
      w\<lparr>cache := (cache w)(key := None)\<rparr>)"
proof -
  obtain r s where rs: "cache_get key (now w) (cache w) = (r, s)" by (cases "cache_get key (now w) (cache w)")
  with assms cache_get_None_store[OF assms] have "r = None" "s = (cache w)(key := None)" by simp_all
  with rs show ?thesis by (simp add: save_merged_dataset_def)
qed

lemma save_found_not_404:
  assumes "cache_get key (now w) (cache w) = (Some j, s)"
  shows "fst (save_merged_dataset pd key new_filename w) \<noteq>
     Inl (HTTPException 404 ''Merged dataset not found or has expired in cache.'')"
  using assms
  by (auto simp: save_merged_dataset_def Let_def db_add_commit_def split: sum.splits prod.splits if_splits)

lemma upload_file_cache_indep:
  "fst (upload_file n c ct (w\<lparr>cache := s :: 'v cache_store, now := t\<rparr>)) =
   fst (upload_file n c ct (w :: ('v, 'b) world))"
  by (auto simp: upload_file_def Let_def split: sum.splits prod.splits exn.splits)

lemma fetch_and_read_cache_indep:
  "fetch_and_read pd m1 m2 (w\<lparr>cache := s :: 'v cache_store, now := t\<rparr>) =
   fetch_and_read pd m1 m2 (w :: ('v, 'b) world)"
  by (simp add: fetch_and_read_def cong: sum.case_cong)

lemma merge_cache_indep:
  "fst (merge_files_temporarily pd u i1 i2 col (w\<lparr>cache := s :: 'v cache_store, now := t\<rparr>)) =
   fst (merge_files_temporarily pd u i1 i2 col (w :: ('v, 'b) world))"
  by (auto simp: merge_files_temporarily_def fetch_and_read_cache_indep Let_def
      split: sum.splits prod.splits option.splits)

text \<open>
  Claim C7. The commit handler answers 404 "Merged dataset not found or has expired in
  cache." exactly when the key is absent from the cache or its entry has expired; in
  both cases the response is this same value and the cache afterwards holds no entry
  for the key, so the two causes cannot be told apart. No other handler reads the cache
  or the clock: the responses of upload, merge and listing are the same whatever the
  cache holds and whatever the time is.
\<close>

theorem commit_absent_or_expired:
  "(fst (save_merged_dataset pd key new_filename w) =
      Inl (HTTPException 404 ''Merged dataset not found or has expired in cache.'')
    \<longleftrightarrow> cache w key = None \<or> (\<exists>data ttl_ts. cache w key = Some (data, ttl_ts) \<and> ttl_ts < now w)) \<and>
   (cache w key = None \<or> (\<exists>data ttl_ts. cache w key = Some (data, ttl_ts) \<and> ttl_ts < now w)
    \<longrightarrow> save_merged_dataset pd key new_filename w =
          (Inl (HTTPException 404 ''Merged dataset not found or has expired in cache.''),
           w\<lparr>cache := (cache w)(key := None)\<rparr>)) \<and>
   fst (upload_file n c ct (w\<lparr>cache := s :: 'v cache_store, now := t\<rparr>)) =
     fst (upload_file n c ct (w :: ('v, 'b) world)) \<and>
   fst (merge_files_temporarily pd u i1 i2 col (w\<lparr>cache := s :: 'v cache_store, now := t\<rparr>)) =
     fst (merge_files_temporarily pd u i1 i2 col w) \<and>
   view_stored_files (w\<lparr>cache := s :: 'v cache_store, now := t\<rparr>) = view_stored_files w"
proof -
  let ?absent = "cache w key = None \<or> (\<exists>data ttl_ts. cache w key = Some (data, ttl_ts) \<and> ttl_ts < now w)"
  have a: "?absent \<longleftrightarrow> fst (cache_get key (now w) (cache w)) = None"
    by (simp add: cache_get_None_iff)
  have 1: "?absent \<Longrightarrow> save_merged_dataset pd key new_filename w =
          (Inl (HTTPException 404 ''Merged dataset not found or has expired in cache.''),
           w\<lparr>cache := (cache w)(key := None)\<rparr>)"
    using a save_not_found by blast
  have 2: "\<not> ?absent \<Longrightarrow> fst (save_merged_dataset pd key new_filename w) \<noteq>
      Inl (HTTPException 404 ''Merged dataset not found or has expired in cache.'')"
  proof -
    assume "\<not> ?absent"
    then obtain j where "fst (cache_get key (now w) (cache w)) = Some j" using a by auto
    then have "cache_get key (now w) (cache w) = (Some j, snd (cache_get key (now w) (cache w)))"
      by (metis prod.collapse)
    then show ?thesis by (rule save_found_not_404)
  qed
  have 3: "fst (save_merged_dataset pd key new_filename w) =
      Inl (HTTPException 404 ''Merged dataset not found or has expired in cache.'') \<longleftrightarrow> ?absent"
    using 1 2 by (metis fst_conv)
  have 4: "fst (upload_file n c ct (w\<lparr>cache := s, now := t\<rparr>)) = fst (upload_file n c ct w)"
    by (rule upload_file_cache_indep)
  have 5: "fst (merge_files_temporarily pd u i1 i2 col (w\<lparr>cache := s, now := t\<rparr>)) =
     fst (merge_files_temporarily pd u i1 i2 col w)"
    by (rule merge_cache_indep)
  have 6: "view_stored_files (w\<lparr>cache := s, now := t\<rparr>) = view_stored_files w"
    by (simp add: view_stored_files_def)
  from 1 have 7: "?absent \<longrightarrow> save_merged_dataset pd key new_filename w =
          (Inl (HTTPException 404 ''Merged dataset not found or has expired in cache.''),
           w\<lparr>cache := (cache w)(key := None)\<rparr>)" by blast
  show ?thesis
    by (intro conjI) (rule 3, rule 7, rule 4, rule 5, rule 6)
qed

theorem commit_absent_or_expired_witness:
  "cache example_world ''k0'' = None \<and>
   save_merged_dataset lossless_pandas ''k0'' ''out.csv'' example_world =
     (Inl (HTTPException 404 ''Merged dataset not found or has expired in cache.''),
      example_world\<lparr>cache := (cache example_world)(''k0'' := None)\<rparr>) \<and>
   (\<exists>data ttl_ts. cache (staged_world\<lparr>now := 5000\<rparr>) ''k1'' = Some (data, ttl_ts) \<and>
      ttl_ts < now (staged_world\<lparr>now := 5000\<rparr>)) \<and>
   save_merged_dataset lossless_pandas ''k1'' ''out.csv'' (staged_world\<lparr>now := 5000\<rparr>) =
     (Inl (HTTPException 404 ''Merged dataset not found or has expired in cache.''),
      staged_world\<lparr>now := 5000, cache := (cache staged_world)(''k1'' := None)\<rparr>)"
  using commit_absent_or_expired [where pd = lossless_pandas and key = "''k0''"
      and new_filename = "''out.csv''" and w = example_world]
    commit_absent_or_expired [where pd = lossless_pandas and key = "''k1''"
      and new_filename = "''out.csv''" and w = "staged_world\<lparr>now := 5000\<rparr>"]
  by (simp add: staged_world_eq) (simp add: example_world_def)

section \<open>Case of the extension\<close>






lemma splitext_data_CSV: "splitext ''data.CSV'' = (''data'', ''.CSV'')"
  by (simp add: splitext_def)

lemma lower_CSV: "lower ''.CSV'' = ''.csv''"
  by (simp add: lower_def lower_char_def ascii_uppercase_def ascii_lowercase_def)

lemma format_data_CSV: "file_format_of ''data.CSV'' = ''csv''"
  by (simp add: file_format_of_def splitext_data_CSV lower_CSV strip_def)



lemma upload_data_CSV:
  "fst (upload_file ''data.CSV'' table_C ''text/csv'' example_world) =
    Inr \<lparr>id_col = 4, filename = ''data.CSV'', format = ''csv''\<rparr>"
  by (simp add: upload_file_def format_data_CSV Let_def method_of_def example_world_def
      MinioService_upload_file_def put_object_def db_add_commit_def)


lemma upload_data_CSV_pair:
  "upload_file ''data.CSV'' table_C ''text/csv'' example_world =
    (Inr \<lparr>id_col = 4, filename = ''data.CSV'', format = ''csv''\<rparr>,
     snd (upload_file ''data.CSV'' table_C ''text/csv'' example_world))"
  using upload_data_CSV by (metis prod.collapse)





section \<open>Merge on a missing column\<close>

lemma merge_missing_column_result:
  assumes "db_get i1 (db w) = Some meta1" "db_get i2 (db w) = Some meta2"
    and "fetch_and_read pd meta1 meta2 w = Inr (df1, df2)"
    and "col \<notin> set (columns df1) \<or> col \<notin> set (columns df2)"
  shows "merge_files_temporarily pd u i1 i2 col w =
    (Inl (HTTPException 400 (''Common column '' @ quoted col @ '' not found.'')), w)"
  using assms by (auto simp: merge_files_temporarily_def)

lemma merge_400_only_missing:
  assumes "fst (merge_files_temporarily pd u i1 i2 col w) =
      Inl (HTTPException 400 (''Common column '' @ quoted col @ '' not found.''))"
  shows "\<exists>meta1 meta2 df1 df2. db_get i1 (db w) = Some meta1 \<and> db_get i2 (db w) = Some meta2 \<and>
      fetch_and_read pd meta1 meta2 w = Inr (df1, df2) \<and>
      (col \<notin> set (columns df1) \<or> col \<notin> set (columns df2))"
  using assms
  by (auto simp: merge_files_temporarily_def Let_def to_json_def
      split: option.splits sum.splits prod.splits if_splits)


lemma fetch_and_read_cache_only:
  "fetch_and_read pd m1 m2 (w\<lparr>cache := s :: 'v cache_store\<rparr>) =
   fetch_and_read pd m1 m2 (w :: ('v, 'b) world)"
  by (simp add: fetch_and_read_def cong: sum.case_cong)

text \<open>
  Claim C8. When both files are found and both decode, and the join column is missing
  from either table, merge answers 400 with a detail that names the column and leaves
  the world, the cache included, as it was; the answer is the same whatever the cache
  holds. Conversely this answer is only given after both lookups and both decodes
  succeeded: the check comes after the decodes and before the join.
\<close>

theorem merge_missing_column:
  "(db_get i1 (db w) = Some meta1 \<and> db_get i2 (db w) = Some meta2 \<and>
    fetch_and_read pd meta1 meta2 w = Inr (df1, df2) \<and>
    (col \<notin> set (columns df1) \<or> col \<notin> set (columns df2))
    \<longrightarrow> merge_files_temporarily pd u i1 i2 col w =
          (Inl (HTTPException 400 (''Common column '' @ quoted col @ '' not found.'')), w) \<and>
        merge_files_temporarily pd u i1 i2 col (w\<lparr>cache := s :: 'v cache_store\<rparr>) =
          (Inl (HTTPException 400 (''Common column '' @ quoted col @ '' not found.'')),
           w\<lparr>cache := s\<rparr>)) \<and>
   (fst (merge_files_temporarily pd u i1 i2 col (w :: ('v, 'b) world)) =
      Inl (HTTPException 400 (''Common column '' @ quoted col @ '' not found.''))
    \<longrightarrow> (\<exists>m1 m2 d1 d2. db_get i1 (db w) = Some m1 \<and> db_get i2 (db w) = Some m2 \<and>
          fetch_and_read pd m1 m2 w = Inr (d1, d2) \<and>
          (col \<notin> set (columns d1) \<or> col \<notin> set (columns d2))))"
proof (intro conjI impI)
  assume a: "db_get i1 (db w) = Some meta1 \<and> db_get i2 (db w) = Some meta2 \<and>
    fetch_and_read pd meta1 meta2 w = Inr (df1, df2) \<and>
    (col \<notin> set (columns df1) \<or> col \<notin> set (columns df2))"
  then show "merge_files_temporarily pd u i1 i2 col w =
          (Inl (HTTPException 400 (''Common column '' @ quoted col @ '' not found.'')), w)"
    using merge_missing_column_result[of i1 w meta1 i2 meta2 pd df1 df2 col u] by blast
  from a have "db_get i1 (db (w\<lparr>cache := s\<rparr>)) = Some meta1"
    "db_get i2 (db (w\<lparr>cache := s\<rparr>)) = Some meta2"
    "fetch_and_read pd meta1 meta2 (w\<lparr>cache := s\<rparr>) = Inr (df1, df2)"
    "col \<notin> set (columns df1) \<or> col \<notin> set (columns df2)"
    by (simp_all add: fetch_and_read_cache_only)
  then show "merge_files_temporarily pd u i1 i2 col (w\<lparr>cache := s\<rparr>) =
          (Inl (HTTPException 400 (''Common column '' @ quoted col @ '' not found.'')),
           w\<lparr>cache := s\<rparr>)"
    by (rule merge_missing_column_result)
next
  assume "fst (merge_files_temporarily pd u i1 i2 col w) =
      Inl (HTTPException 400 (''Common column '' @ quoted col @ '' not found.''))"
  then show "\<exists>m1 m2 d1 d2. db_get i1 (db w) = Some m1 \<and> db_get i2 (db w) = Some m2 \<and>
          fetch_and_read pd m1 m2 w = Inr (d1, d2) \<and>
          (col \<notin> set (columns d1) \<or> col \<notin> set (columns d2))"
    by (rule merge_400_only_missing)
qed

lemma example_db_get:
  "db_get 1 (db example_world) = Some \<lparr>id_col = 1, filename = ''A.csv'', format = ''csv''\<rparr>"
  "db_get 2 (db example_world) = Some \<lparr>id_col = 2, filename = ''B.csv'', format = ''csv''\<rparr>"
  "db_get 3 (db example_world) = Some \<lparr>id_col = 3, filename = ''C.csv'', format = ''csv''\<rparr>"
  by (simp_all add: db_get_def example_world_def)

lemma lower_csv: "lower ''csv'' = ''csv''"
  by (simp add: lower_def lower_char_def ascii_uppercase_def ascii_lowercase_def)

lemma example_fetch_and_read:
  "fetch_and_read lossless_pandas \<lparr>id_col = 1, filename = ''A.csv'', format = ''csv''\<rparr>
     \<lparr>id_col = 2, filename = ''B.csv'', format = ''csv''\<rparr> example_world = Inr (table_A, table_B)"
  "fetch_and_read lossless_pandas \<lparr>id_col = 1, filename = ''A.csv'', format = ''csv''\<rparr>
     \<lparr>id_col = 3, filename = ''C.csv'', format = ''csv''\<rparr> example_world = Inr (table_A, table_C)"
  by (simp_all add: fetch_and_read_def method_of_def MinioService_fetch_file_def get_object_def
      get_file_dataframe_def lower_csv lossless_pandas_def example_world_def)

theorem merge_missing_column_witness:
  "db_get 1 (db example_world) = Some \<lparr>id_col = 1, filename = ''A.csv'', format = ''csv''\<rparr> \<and>
   db_get 2 (db example_world) = Some \<lparr>id_col = 2, filename = ''B.csv'', format = ''csv''\<rparr> \<and>
   fetch_and_read lossless_pandas \<lparr>id_col = 1, filename = ''A.csv'', format = ''csv''\<rparr>
     \<lparr>id_col = 2, filename = ''B.csv'', format = ''csv''\<rparr> example_world = Inr (table_A, table_B) \<and>
   ''y'' \<in> set (columns table_B) \<and> ''y'' \<notin> set (columns table_A) \<and>
   merge_files_temporarily lossless_pandas ''k9'' 1 2 ''y'' example_world =
     (Inl (HTTPException 400 (''Common column '' @ quoted ''y'' @ '' not found.'')), example_world)"
proof -
  have c: "''y'' \<in> set (columns table_B)" "''y'' \<notin> set (columns table_A)"
    by (simp_all add: table_A_def table_B_def)
  note t = merge_missing_column [where ?i1.0 = 1 and ?i2.0 = 2 and w = example_world
      and pd = lossless_pandas and col = "''y''" and u = "''k9''"
      and ?meta1.0 = "\<lparr>id_col = 1, filename = ''A.csv'', format = ''csv''\<rparr>"
      and ?meta2.0 = "\<lparr>id_col = 2, filename = ''B.csv'', format = ''csv''\<rparr>"
      and ?df1.0 = table_A and ?df2.0 = table_B and s = Map.empty]
  from t example_db_get(1,2) example_fetch_and_read(1) c(2)
  have "merge_files_temporarily lossless_pandas ''k9'' 1 2 ''y'' example_world =
     (Inl (HTTPException 400 (''Common column '' @ quoted ''y'' @ '' not found.'')), example_world)"
    by blast
  with example_db_get(1,2) example_fetch_and_read(1) c show ?thesis by blast
qed

section \<open>Commit under an unsupported format\<close>












section \<open>Commit and the cache entry\<close>








section \<open>Uniqueness of file names\<close>

lemma db_add_commit_files:
  "files (snd (db_add_commit name fmt d)) =
     (if name \<in> set (map filename (files d)) then files d
      else files d @ [\<lparr>id_col = files_id_seq d, filename = name, format = fmt\<rparr>])"
  by (simp add: db_add_commit_def Let_def)

lemma db_add_commit_result:
  "fst (db_add_commit name fmt d) =
     (if name \<in> set (map filename (files d))
      then Inl (IntegrityError ''duplicate key value violates unique constraint'')
      else Inr \<lparr>id_col = files_id_seq d, filename = name, format = fmt\<rparr>)"
  by (simp add: db_add_commit_def Let_def)

lemma db_add_commit_distinct:
  "distinct (map filename (files d)) \<Longrightarrow>
   distinct (map filename (files (snd (db_add_commit name fmt d))))"
  by (simp add: db_add_commit_files)

lemma upload_file_db:
  "db (snd (upload_file name c ct w)) = db w \<or>
   db (snd (upload_file name c ct w)) = snd (db_add_commit name (file_format_of name) (db w))"
  by (auto simp: upload_file_def Let_def split: sum.splits prod.splits exn.splits)

lemma merge_db: "db (snd (merge_files_temporarily pd u i1 i2 col w)) = db w"
  by (auto simp: merge_files_temporarily_def Let_def split: sum.splits prod.splits option.splits)

lemma save_db:
  "db (snd (save_merged_dataset pd key name w)) = db w \<or>
   db (snd (save_merged_dataset pd key name w)) =
     snd (db_add_commit name (file_format_of name) (db w))"
  by (auto simp: save_merged_dataset_def Let_def split: sum.splits prod.splits option.splits)

lemma upload_success:
  assumes "upload_file name c ct w = (Inr r, w1)"
  shows "\<exists>self srv'. minio_service w = Some self \<and>
     put_object (minio w) (bucket_name self) name c ct = Inr srv' \<and>
     file_format_of name \<in> {''csv'', ''xlsx''} \<and>
     name \<notin> set (map filename (files (db w))) \<and>
     r = \<lparr>id_col = files_id_seq (db w), filename = name, format = file_format_of name\<rparr> \<and>
     minio_service w1 = Some self \<and> minio w1 = srv' \<and>
     files (db w1) = files (db w) @ [r]"
  using assms
  by (auto simp: upload_file_def Let_def method_of_def MinioService_upload_file_def
      db_add_commit_def split: sum.splits prod.splits exn.splits option.splits if_splits)

lemma put_object_again:
  assumes "put_object srv b n c ct = Inr srv'"
  shows "\<exists>srv''. put_object srv' b n c2 ct2 = Inr srv''"
  using assms by (auto simp: put_object_def split: option.splits if_splits)

lemma upload_duplicate:
  assumes "minio_service w = Some self"
    and "put_object (minio w) (bucket_name self) name c ct = Inr srv'"
    and "file_format_of name \<in> {''csv'', ''xlsx''}"
    and "name \<in> set (map filename (files (db w)))"
  shows "fst (upload_file name c ct w) =
     Inl (HTTPException 500 ''Database error: Failed to store file metadata.'')"
  using assms
  by (auto simp: upload_file_def Let_def method_of_def MinioService_upload_file_def
      db_add_commit_def)

lemma upload_registered:
  assumes "name \<in> set (map filename (files (db w)))"
  shows "(\<exists>e. fst (upload_file name c ct w) = Inl e) \<and>
     files (db (snd (upload_file name c ct w))) = files (db w)"
  using assms
  by (auto simp: upload_file_def Let_def db_add_commit_def
      split: sum.splits prod.splits exn.splits)


text \<open>
  Claim C6. After an upload of a name has succeeded, the record with that name is in the
  catalog, and a second upload of the same name fails: the catalog insert violates the
  uniqueness constraint (\<open>IntegrityError\<close>), the handler answers 500 "Database error:
  Failed to store file metadata.", and the catalog's records are as they were. More
  generally, an upload of a name that is registered never succeeds and never changes the
  records. Every operation keeps the file names of the catalog distinct.
\<close>

theorem upload_uniqueness:
  "(upload_file name c ct w = (Inr r, w1) \<longrightarrow>
      filename r = name \<and> r \<in> set (files (db w1)) \<and>
      fst (db_add_commit name (file_format_of name) (db w1)) =
        Inl (IntegrityError ''duplicate key value violates unique constraint'') \<and>
      fst (upload_file name c' ct' w1) =
        Inl (HTTPException 500 ''Database error: Failed to store file metadata.'') \<and>
      files (db (snd (upload_file name c' ct' w1))) = files (db w1)) \<and>
   (name \<in> set (map filename (files (db w))) \<longrightarrow>
      (\<exists>e. fst (upload_file name c ct w) = Inl e) \<and>
      files (db (snd (upload_file name c ct w))) = files (db w)) \<and>
   (distinct (map filename (files (db w))) \<longrightarrow>
      distinct (map filename (files (db (snd (upload_file name c ct w))))) \<and>
      distinct (map filename (files (db (snd (merge_files_temporarily pd u i1 i2 col w))))) \<and>
      distinct (map filename (files (db (snd (save_merged_dataset pd key name w))))))"
proof (intro conjI impI)
  assume a: "upload_file name c ct w = (Inr r, w1)"
  from upload_success[OF a] obtain self srv' where f:
    "minio_service w = Some self"
    "put_object (minio w) (bucket_name self) name c ct = Inr srv'"
    "file_format_of name \<in> {''csv'', ''xlsx''}"
    "r = \<lparr>id_col = files_id_seq (db w), filename = name, format = file_format_of name\<rparr>"
    "minio_service w1 = Some self" "minio w1 = srv'"
    "files (db w1) = files (db w) @ [r]" by blast
  from f(4) show "filename r = name" by simp
  from f(7) show "r \<in> set (files (db w1))" by simp
  from f(4,7) have reg: "name \<in> set (map filename (files (db w1)))" by simp
  then show "fst (db_add_commit name (file_format_of name) (db w1)) =
        Inl (IntegrityError ''duplicate key value violates unique constraint'')"
    by (simp add: db_add_commit_result)
  from put_object_again[OF f(2)] f(6) obtain srv'' where
    p: "put_object (minio w1) (bucket_name self) name c' ct' = Inr srv''" by blast
  from f(5) p f(3) reg
  show "fst (upload_file name c' ct' w1) =
        Inl (HTTPException 500 ''Database error: Failed to store file metadata.'')"
    by (rule upload_duplicate)
  from upload_registered[OF reg]
  show "files (db (snd (upload_file name c' ct' w1))) = files (db w1)" by blast
next
  assume "name \<in> set (map filename (files (db w)))"
  from upload_registered[OF this]
  show "\<exists>e. fst (upload_file name c ct w) = Inl e"
    "files (db (snd (upload_file name c ct w))) = files (db w)" by blast+
next
  assume d: "distinct (map filename (files (db w)))"
  show "distinct (map filename (files (db (snd (upload_file name c ct w)))))"
    using upload_file_db[of name c ct w] d db_add_commit_distinct[OF d] by metis
  show "distinct (map filename (files (db (snd (merge_files_temporarily pd u i1 i2 col w)))))"
    using d by (simp add: merge_db)
  show "distinct (map filename (files (db (snd (save_merged_dataset pd key name w)))))"
    using save_db[of pd key name w] d db_add_commit_distinct[OF d] by metis
qed

lemma example_distinct: "distinct (map filename (files (db example_world)))"
  by (simp add: example_world_def)

theorem upload_uniqueness_witness:
  "upload_file ''data.CSV'' table_C ''text/csv'' example_world =
     (Inr \<lparr>id_col = 4, filename = ''data.CSV'', format = ''csv''\<rparr>,
      snd (upload_file ''data.CSV'' table_C ''text/csv'' example_world)) \<and>
   fst (upload_file ''data.CSV'' table_A ''text/csv''
          (snd (upload_file ''data.CSV'' table_C ''text/csv'' example_world))) =
     Inl (HTTPException 500 ''Database error: Failed to store file metadata.'') \<and>
   files (db (snd (upload_file ''data.CSV'' table_A ''text/csv''
          (snd (upload_file ''data.CSV'' table_C ''text/csv'' example_world))))) =
     files (db (snd (upload_file ''data.CSV'' table_C ''text/csv'' example_world))) \<and>
   distinct (map filename (files (db example_world))) \<and>
   distinct (map filename
     (files (db (snd (upload_file ''data.CSV'' table_C ''text/csv'' example_world)))))"
  using upload_uniqueness [where name = "''data.CSV''" and c = table_C and ct = "''text/csv''"
      and w = example_world and c' = table_A and ct' = "''text/csv''"
      and r = "\<lparr>id_col = 4, filename = ''data.CSV'', format = ''csv''\<rparr>"
      and ?w1.0 = "snd (upload_file ''data.CSV'' table_C ''text/csv'' example_world)"
      and pd = lossless_pandas]
    upload_data_CSV_pair example_distinct
  by blast

section \<open>Construction failure of the object store client\<close>

lemma init_unreachable:
  "\<not> reachable srv \<Longrightarrow>
   MinioService_init srv =
     (Inl (ConnectionError (''Could not initialize MinIO client: '' @ ''Max retries exceeded'' @
                             ''. Is MinIO running?'')), srv)"
  by (simp add: MinioService_init_def MinioService_ensure_bucket_exists_def bucket_exists_def)

lemma import_unreachable:
  "\<not> reachable (minio w) \<Longrightarrow> minio_service (import_minio_service w) = None"
  by (simp add: import_minio_service_def module_minio_service_def init_unreachable)

lemma upload_without_service:
  assumes "minio_service w = None" and "file_format_of name \<in> {''csv'', ''xlsx''}"
  shows "upload_file name c ct w =
    (Inl (HTTPException 500 (''Failed to upload file to MinIO: '' @ quoted ''NoneType'' @
       '' object has no attribute '' @ quoted ''upload_file'')), w)"
  using assms by (auto simp: upload_file_def Let_def method_of_def)

text \<open>
  Claim C4, on the code. When the object store cannot be reached while the service module
  is imported, the constructor raises \<open>ConnectionError\<close>, the module catches it and sets
  the global to \<open>None\<close>, and an upload of a supported file then fails on the method call
  with \<open>AttributeError\<close>, which the handler answers with status 500, not 503.
\<close>

theorem construction_failure_answered_500:
  "\<not> reachable (minio w) \<and> file_format_of name \<in> {''csv'', ''xlsx''} \<longrightarrow>
     (\<exists>m. fst (MinioService_init (minio w)) = Inl (ConnectionError m)) \<and>
     minio_service (import_minio_service w) = None \<and>
     fst (upload_file name c ct (import_minio_service w)) =
       Inl (HTTPException 500 (''Failed to upload file to MinIO: '' @ quoted ''NoneType'' @
          '' object has no attribute '' @ quoted ''upload_file''))"
proof (intro impI conjI)
  assume a: "\<not> reachable (minio w) \<and> file_format_of name \<in> {''csv'', ''xlsx''}"
  then show "\<exists>m. fst (MinioService_init (minio w)) = Inl (ConnectionError m)"
    by (simp add: init_unreachable)
  from a show n: "minio_service (import_minio_service w) = None"
    by (simp add: import_unreachable)
  from a upload_without_service[OF n, of name c ct]
  show "fst (upload_file name c ct (import_minio_service w)) =
       Inl (HTTPException 500 (''Failed to upload file to MinIO: '' @ quoted ''NoneType'' @
          '' object has no attribute '' @ quoted ''upload_file''))"
    by simp
qed

lemma format_a_csv: "file_format_of ''a.csv'' = ''csv''"
  by (simp add: file_format_of_def splitext_def lower_def lower_char_def
      ascii_uppercase_def ascii_lowercase_def strip_def)

theorem construction_failure_answered_500_witness:
  "\<not> reachable (minio offline_world) \<and> file_format_of ''a.csv'' = ''csv'' \<and>
   minio_service (import_minio_service offline_world) = None \<and>
   fst (upload_file ''a.csv'' table_A ''text/csv'' (import_minio_service offline_world)) =
     Inl (HTTPException 500 (''Failed to upload file to MinIO: '' @ quoted ''NoneType'' @
        '' object has no attribute '' @ quoted ''upload_file''))"
  using construction_failure_answered_500 [where w = offline_world and name = "''a.csv''"
      and c = table_A and ct = "''text/csv''"] format_a_csv
  by (simp add: offline_world_def)

section \<open>What a successful merge stores and returns\<close>

lemma merge_success:
  assumes "merge_files_temporarily pd u i1 i2 col w = (Inr resp, w')"
  shows "\<exists>m1 m2 df1 df2.
     db_get i1 (db w) = Some m1 \<and> db_get i2 (db w) = Some m2 \<and>
     fetch_and_read pd m1 m2 w = Inr (df1, df2) \<and>
     col \<in> set (columns df1) \<and> col \<in> set (columns df2) \<and>
     distinct (columns (pd_merge df1 df2 col)) \<and>
     resp = \<lparr>cache_key = u, preview = to_dict (head (pd_merge df1 df2 col)),
             message = ''Merged dataset cached in memory with key: '' @ u\<rparr> \<and>
     w' = w\<lparr>cache := (cache w)(u \<mapsto> (to_dict (pd_merge df1 df2 col), now w + 3600))\<rparr>"
  using assms
  by (auto simp: merge_files_temporarily_def Let_def to_json_def cache_set_def
      split: option.splits sum.splits prod.splits if_splits)

lemma to_dict_head: "to_dict (head df) = take 5 (to_dict df)"
  by (simp add: to_dict_def head_def take_map)

lemma cache_get_fresh:
  "fst (cache_get k t (store(k \<mapsto> (v, e)))) = (if t \<le> e then Some v else None)"
  by (simp add: cache_get_def)

text \<open>
  Claim C9. A successful merge found and decoded both files, and with \<open>J\<close> the join of
  the two tables on the column: the cache afterwards is the cache before with the whole
  of \<open>J\<close>, one row object per row, stored under the generated key with expiry time
  now + 3600 seconds, and nothing else of the world changes; the entry is read back up
  to that time and not after it; the response carries the key, the first five row
  objects of \<open>J\<close> as preview, and the message that names the key. The key is the value
  that the random generator returns for this request.
\<close>

theorem merge_stores_and_previews:
  "merge_files_temporarily pd uuid4 i1 i2 col w = (Inr resp, w') \<longrightarrow>
     (\<exists>m1 m2 df1 df2.
        db_get i1 (db w) = Some m1 \<and> db_get i2 (db w) = Some m2 \<and>
        fetch_and_read pd m1 m2 w = Inr (df1, df2) \<and>
        w' = w\<lparr>cache := (cache w)(uuid4 \<mapsto> (to_dict (pd_merge df1 df2 col), now w + 3600))\<rparr> \<and>
        length (to_dict (pd_merge df1 df2 col)) = length (rows (pd_merge df1 df2 col)) \<and>
        fst (cache_get uuid4 t (cache w')) =
          (if t \<le> now w + 3600 then Some (to_dict (pd_merge df1 df2 col)) else None) \<and>
        cache_key resp = uuid4 \<and>
        preview resp = take 5 (to_dict (pd_merge df1 df2 col)) \<and>
        message resp = ''Merged dataset cached in memory with key: '' @ uuid4)"
proof
  assume "merge_files_temporarily pd uuid4 i1 i2 col w = (Inr resp, w')"
  from merge_success[OF this] obtain m1 m2 df1 df2 where f:
    "db_get i1 (db w) = Some m1" "db_get i2 (db w) = Some m2"
    "fetch_and_read pd m1 m2 w = Inr (df1, df2)"
    "resp = \<lparr>cache_key = uuid4, preview = to_dict (head (pd_merge df1 df2 col)),
             message = ''Merged dataset cached in memory with key: '' @ uuid4\<rparr>"
    "w' = w\<lparr>cache := (cache w)(uuid4 \<mapsto> (to_dict (pd_merge df1 df2 col), now w + 3600))\<rparr>"
    by blast
  have l: "length (to_dict (pd_merge df1 df2 col)) = length (rows (pd_merge df1 df2 col))"
    by (simp add: to_dict_def)
  have g: "fst (cache_get uuid4 t (cache w')) =
          (if t \<le> now w + 3600 then Some (to_dict (pd_merge df1 df2 col)) else None)"
    by (simp add: f(5) cache_get_fresh)
  have r: "cache_key resp = uuid4" "preview resp = take 5 (to_dict (pd_merge df1 df2 col))"
    "message resp = ''Merged dataset cached in memory with key: '' @ uuid4"
    by (simp_all add: f(4) to_dict_head)
  from f(1,2,3,5) l g r show "\<exists>m1 m2 df1 df2.
        db_get i1 (db w) = Some m1 \<and> db_get i2 (db w) = Some m2 \<and>
        fetch_and_read pd m1 m2 w = Inr (df1, df2) \<and>
        w' = w\<lparr>cache := (cache w)(uuid4 \<mapsto> (to_dict (pd_merge df1 df2 col), now w + 3600))\<rparr> \<and>
        length (to_dict (pd_merge df1 df2 col)) = length (rows (pd_merge df1 df2 col)) \<and>
        fst (cache_get uuid4 t (cache w')) =
          (if t \<le> now w + 3600 then Some (to_dict (pd_merge df1 df2 col)) else None) \<and>
        cache_key resp = uuid4 \<and>
        preview resp = take 5 (to_dict (pd_merge df1 df2 col)) \<and>
        message resp = ''Merged dataset cached in memory with key: '' @ uuid4"
    by blast
qed

lemma example_merge:
  "merge_files_temporarily lossless_pandas ''k1'' 1 2 ''id'' example_world =
    (Inr \<lparr>cache_key = ''k1'',
          preview = [[(''id'', Some ''1''), (''x'', Some ''a''), (''y'', Some ''p'')]],
          message = ''Merged dataset cached in memory with key: k1''\<rparr>, staged_world)"
proof -
  have "fst (merge_files_temporarily lossless_pandas ''k1'' 1 2 ''id'' example_world) =
    Inr \<lparr>cache_key = ''k1'',
          preview = [[(''id'', Some ''1''), (''x'', Some ''a''), (''y'', Some ''p'')]],
          message = ''Merged dataset cached in memory with key: k1''\<rparr>"
    by (simp add: example_world_def merge_files_temporarily_def db_get_def
      fetch_and_read_def method_of_def MinioService_fetch_file_def get_object_def
      get_file_dataframe_def lower_csv
      lossless_pandas_def table_A_def table_B_def pd_merge_def remove_nth_def to_json_def
      to_dict_def head_def cache_set_def Let_def)
  then show ?thesis unfolding staged_world_def by (metis prod.collapse)
qed

theorem merge_stores_and_previews_witness:
  "merge_files_temporarily lossless_pandas ''k1'' 1 2 ''id'' example_world =
    (Inr \<lparr>cache_key = ''k1'',
          preview = [[(''id'', Some ''1''), (''x'', Some ''a''), (''y'', Some ''p'')]],
          message = ''Merged dataset cached in memory with key: k1''\<rparr>, staged_world) \<and>
   cache staged_world ''k1'' =
     Some ([[(''id'', Some ''1''), (''x'', Some ''a''), (''y'', Some ''p'')]], 4600) \<and>
   (\<exists>m1 m2 df1 df2.
      fetch_and_read lossless_pandas m1 m2 example_world = Inr (df1, df2) \<and>
      fst (cache_get ''k1'' 4600 (cache staged_world)) = Some (to_dict (pd_merge df1 df2 ''id'')) \<and>
      fst (cache_get ''k1'' 4601 (cache staged_world)) = None)"
proof -
  from merge_stores_and_previews [where pd = lossless_pandas and ?uuid4.0 = "''k1''"
      and ?i1.0 = 1 and ?i2.0 = 2 and col = "''id''" and w = example_world and w' = staged_world
      and t = 4600] example_merge
  obtain m1 m2 df1 df2 where f:
    "fetch_and_read lossless_pandas m1 m2 example_world = Inr (df1, df2)"
    "staged_world = example_world\<lparr>cache := (cache example_world)(''k1'' \<mapsto>
        (to_dict (pd_merge df1 df2 ''id''), now example_world + 3600))\<rparr>"
    by blast
  have n: "now example_world + 3600 = 4600" by (simp add: example_world_def)
  have 1: "fst (cache_get ''k1'' 4600 (cache staged_world)) = Some (to_dict (pd_merge df1 df2 ''id''))"
    by (subst f(2)) (simp add: cache_get_fresh n)
  have 2: "fst (cache_get ''k1'' 4601 (cache staged_world)) = None"
    by (subst f(2)) (simp add: cache_get_fresh n)
  have 3: "cache staged_world ''k1'' =
     Some ([[(''id'', Some ''1''), (''x'', Some ''a''), (''y'', Some ''p'')]], 4600)"
    by (simp add: staged_world_eq)
  from f(1) 1 2 have "\<exists>m1 m2 df1 df2.
      fetch_and_read lossless_pandas m1 m2 example_world = Inr (df1, df2) \<and>
      fst (cache_get ''k1'' 4600 (cache staged_world)) = Some (to_dict (pd_merge df1 df2 ''id'')) \<and>
      fst (cache_get ''k1'' 4601 (cache staged_world)) = None" by blast
  with example_merge 3 show ?thesis by blast
qed

section \<open>The merge is an inner join\<close>















section \<open>Round trip through merge and commit\<close>






















end
